theory Spec2Isabelle
  imports Main "HOL-Library.Word"
begin

section \<open>Go values\<close>

text \<open>
  Go's \<^verbatim>\<open>int\<close> is a 64-bit two's-complement integer on the platforms the programs are
  built for: \<open>+\<close> wraps around and \<open>sint\<close> reads the signed value. Strings are
  immutable byte sequences.
\<close>

type_synonym go_int = "64 word"

text \<open>The verb \<^verbatim>\<open>%d\<close> of \<^verbatim>\<open>fmt.Printf\<close>: the signed value in decimal.\<close>

definition digit :: "nat \<Rightarrow> char" where
  "digit d = char_of (48 + d)"

function decimal :: "nat \<Rightarrow> string" where
  "decimal n = (if n < 10 then [digit n] else decimal (n div 10) @ [digit (n mod 10)])"
  by pat_completeness auto
termination
  by (relation "measure id") auto

declare decimal.simps [simp del]

definition decimal_int :: "int \<Rightarrow> string" where
  "decimal_int i = (if i < 0 then CHR ''-'' # decimal (nat (- i)) else decimal (nat i))"

definition fmt_d :: "go_int \<Rightarrow> string" where
  "fmt_d i = decimal_int (sint i)"

text \<open>
  Memory that pointers and slices refer to: a heap is the list of the objects allocated
  so far, an address is an index into it, and allocation appends (the garbage collector
  never moves or frees an object that is still referenced). \<open>None\<close> is \<^verbatim>\<open>nil\<close>.
\<close>

type_synonym 'a heap = "'a list"
type_synonym ptr = "nat option"

definition alloc :: "'a heap \<Rightarrow> 'a \<Rightarrow> nat \<times> 'a heap" where
  "alloc h v = (length h, h @ [v])"

definition load :: "'a heap \<Rightarrow> nat \<Rightarrow> 'a option" where
  "load h a = (if a < length h then Some (h ! a) else None)"

definition store :: "'a heap \<Rightarrow> nat \<Rightarrow> 'a \<Rightarrow> 'a heap" where
  "store h a v = h[a := v]"


section \<open>The bare store: \<^verbatim>\<open>Store\<close>, \<^verbatim>\<open>AddItem\<close>, \<^verbatim>\<open>GetItem\<close>\<close>

record Item =
  Name :: string
  Price :: go_int

text \<open>
  The struct also holds \<^verbatim>\<open>mu sync.Mutex\<close>. Both methods have pointer receivers, lock
  \<^verbatim>\<open>s.mu\<close> on entry and unlock it on return, so one call is one step on the state.
  The elements of a Go map are not addressable: they live in the map, not in the heap
  of \<^verbatim>\<open>Item\<close> objects that pointers refer to.
\<close>

record Store =
  items :: "string \<rightharpoonup> Item"

definition NewStore :: Store where
  "NewStore = \<lparr>items = Map.empty\<rparr>"

definition AddItem :: "Item \<Rightarrow> Store \<Rightarrow> Store" where
  "AddItem item s = s\<lparr>items := (items s)(Item.Name item \<mapsto> item)\<rparr>"

text \<open>
  \<^verbatim>\<open>GetItem\<close> returns \<^verbatim>\<open>(error, *Item)\<close>. \<^verbatim>\<open>item, ok := s.items[name]\<close> copies the element
  into the local variable \<^verbatim>\<open>item\<close>; \<^verbatim>\<open>&item\<close> is the address of that variable, a new
  object on the heap. The error is its message.
\<close>

definition GetItem :: "string \<Rightarrow> Store \<Rightarrow> Item heap \<Rightarrow> (string option \<times> ptr) \<times> Item heap" where
  "GetItem name s h =
     (case items s name of
        None \<Rightarrow> ((Some ''item not found'', None), h)
      | Some item \<Rightarrow> (case alloc h item of (a, h') \<Rightarrow> ((None, Some a), h')))"


section \<open>The product service\<close>

record Product =
  ID :: go_int
  Name :: string
  Price :: go_int

text \<open>
  \<^verbatim>\<open>ProductService\<close> is \<^verbatim>\<open>products map[int]Product\<close>, \<^verbatim>\<open>mu sync.RWMutex\<close> and
  \<^verbatim>\<open>nextID int\<close>. This section is the behaviour of one call at a time; the mutex is
  modelled in the section on interleaved calls.
\<close>

record ProductService =
  products :: "go_int \<rightharpoonup> Product"
  nextID :: go_int

definition NewProductService :: ProductService where
  "NewProductService = \<lparr>products = Map.empty, nextID = 1\<rparr>"

text \<open>
  \<^verbatim>\<open>CreateProduct\<close> has no result parameter: the first component is the empty result.
  The second is the service after the call, the third the line written to standard
  output.
\<close>

definition CreateProduct :: "Product \<Rightarrow> ProductService \<Rightarrow> unit \<times> ProductService \<times> string" where
  "CreateProduct newProduct ps =
     (let newProduct = newProduct\<lparr>ID := nextID ps\<rparr>;
          ps = ps\<lparr>products := (products ps)(ID newProduct \<mapsto> newProduct)\<rparr>;
          ps = ps\<lparr>nextID := nextID ps + 1\<rparr>
      in ((), ps,
          ''Created new product: ID='' @ fmt_d (ID newProduct) @ '', Name='' @ Name newProduct
            @ [CHR 0x0A]))"

text \<open>
  \<^verbatim>\<open>for _, p := range ps.products\<close> visits every key once, in an order the runtime
  chooses. The order is a parameter: a list of keys.
\<close>

definition iteration_order :: "('k \<rightharpoonup> 'v) \<Rightarrow> 'k list \<Rightarrow> bool" where
  "iteration_order m ks = (distinct ks \<and> set ks = dom m)"

fun range_append :: "('k \<rightharpoonup> 'v) \<Rightarrow> 'k list \<Rightarrow> 'v list \<Rightarrow> 'v list" where
  "range_append m [] acc = acc"
| "range_append m (k # ks) acc =
     (case m k of None \<Rightarrow> range_append m ks acc | Some p \<Rightarrow> range_append m ks (acc @ [p]))"

text \<open>
  \<^verbatim>\<open>GetProducts\<close> makes a slice of capacity \<^verbatim>\<open>len(ps.products)\<close>, so \<^verbatim>\<open>append\<close> never
  reallocates: the result is one new backing array, and the slice returned is its
  address (its length is the length of the array).
\<close>

definition GetProducts :: "go_int list \<Rightarrow> ProductService \<Rightarrow> Product list heap \<Rightarrow> nat \<times> Product list heap" where
  "GetProducts order ps h = alloc h (range_append (products ps) order [])"

subsection \<open>The handlers\<close>

text \<open>
  A request is its method and its body. The response is what the handler does to the
  \<^verbatim>\<open>ResponseWriter\<close>: the status code, the header fields it sets and the bytes
  it writes.
\<close>

record 'b Request =
  Method :: string
  Body :: 'b

record Response =
  Status :: nat
  Header :: "(string \<times> string) list"
  Written :: string

text \<open>\<^verbatim>\<open>http.Error\<close> of the standard library: a plain-text reply, the message and a newline.\<close>

definition http_Error :: "string \<Rightarrow> nat \<Rightarrow> Response" where
  "http_Error error code =
     \<lparr>Status = code,
      Header = [(''Content-Type'', ''text/plain; charset=utf-8''),
                (''X-Content-Type-Options'', ''nosniff'')],
      Written = error @ [CHR 0x0A]\<rparr>"

definition StatusMethodNotAllowed :: nat where "StatusMethodNotAllowed = 405"
definition StatusBadRequest :: nat where "StatusBadRequest = 400"
definition StatusCreated :: nat where "StatusCreated = 201"
definition StatusOK :: nat where "StatusOK = 200"

text \<open>
  \<^verbatim>\<open>json.NewDecoder(r.Body).Decode(&p)\<close> and \<^verbatim>\<open>err.Error()\<close> belong to the standard
  library: the handler takes them as the parameters \<open>Decode\<close> (the body and the struct
  to fill give the error, if any, and the struct as filled) and \<open>Error\<close>. \<^verbatim>\<open>var p Product\<close>
  is the zero value. The result is the response, the service and the text printed.
\<close>

definition zero_Product :: Product where
  "zero_Product = \<lparr>ID = 0, Name = [], Price = 0\<rparr>"

definition createProductHandler ::
  "('b \<Rightarrow> Product \<Rightarrow> 'e option \<times> Product) \<Rightarrow> ('e \<Rightarrow> string) \<Rightarrow>
   'b Request \<Rightarrow> ProductService \<Rightarrow> Response \<times> ProductService \<times> string" where
  "createProductHandler Decode Error r service =
     (if Method r \<noteq> ''POST'' then
        (http_Error ''Method not allowed'' StatusMethodNotAllowed, service, [])
      else
        (case Decode (Body r) zero_Product of
           (Some err, p) \<Rightarrow> (http_Error (Error err) StatusBadRequest, service, [])
         | (None, p) \<Rightarrow>
             (case CreateProduct p service of
                (u, service', out) \<Rightarrow>
                  (\<lparr>Status = StatusCreated, Header = [],
                    Written = ''Product created successfully''\<rparr>, service', out))))"

text \<open>
  \<^verbatim>\<open>json.NewEncoder(w).Encode(products)\<close> is the parameter \<open>Encode\<close>: the bytes it writes
  for a slice of products.
\<close>

definition getProductsHandler ::
  "(Product list \<Rightarrow> string) \<Rightarrow> go_int list \<Rightarrow> 'b Request \<Rightarrow> ProductService \<Rightarrow>
   Product list heap \<Rightarrow> Response \<times> ProductService \<times> Product list heap" where
  "getProductsHandler Encode order r service h =
     (if Method r \<noteq> ''GET'' then
        (http_Error ''Method not allowed'' StatusMethodNotAllowed, service, h)
      else
        (case GetProducts order service h of
           (prods, h') \<Rightarrow>
             (\<lparr>Status = StatusOK, Header = [(''Content-Type'', ''application/json'')],
               Written = Encode (h' ! prods)\<rparr>, service, h')))"


subsection \<open>The JSON decoder of the standard library\<close>

text \<open>
  \<^verbatim>\<open>encoding/json\<close> is not part of the repository. The theorems about the handlers hold
  for every decoder; one decoder, written from the library's documentation and source,
  serves to run the handlers on concrete requests. It starts after the scanner: a body is
  \<open>Malformed\<close>, with the scanner's message, when it does not begin with a well-formed
  JSON value (\<^verbatim>\<open>EOF\<close> for an empty body), and \<open>WellFormed\<close> with that value otherwise.
  \<open>JInt\<close> is a number written without fraction or exponent, \<open>JFloat\<close> any other
  number, as written.
\<close>

datatype json =
    JNull
  | JBool bool
  | JInt int
  | JFloat string
  | JString string
  | JArray "json list"
  | JObject "(string \<times> json) list"

datatype json_body = Malformed string | WellFormed json

text \<open>
  \<open>UnmarshalTypeError\<close> has the description of the JSON value, the struct field
  (empty at the top level) and the Go type.
\<close>

datatype decode_error = SyntaxError string | UnmarshalTypeError string string string

fun error_text :: "decode_error \<Rightarrow> string" where
  "error_text (SyntaxError msg) = msg"
| "error_text (UnmarshalTypeError v f t) =
     ''json: cannot unmarshal '' @ v
       @ (if f = [] then '' into Go value of type '' else '' into Go struct field '' @ f @ '' of type '')
       @ t"

text \<open>
  Object keys are matched to the struct's field tags \<^verbatim>\<open>id\<close>, \<^verbatim>\<open>name\<close> and \<^verbatim>\<open>price\<close>
  without regard to case, and a key that matches no field is ignored.
\<close>

definition to_lower :: "char \<Rightarrow> char" where
  "to_lower c = (let n = of_char c :: nat in if 65 \<le> n \<and> n \<le> 90 then char_of (n + 32) else c)"

definition field_of_key :: "string \<Rightarrow> string option" where
  "field_of_key k =
     (let l = map to_lower k in if l \<in> set [''id'', ''name'', ''price''] then Some l else None)"

text \<open>
  A value for a field: \<^verbatim>\<open>null\<close> leaves the field as it is, a value of the field's type
  is stored, and anything else (also an integer outside 64 bits) is a type error, \<open>Inl\<close>
  with the description of the value.
\<close>

fun kind :: "json \<Rightarrow> string" where
  "kind JNull = ''null''"
| "kind (JBool b) = ''bool''"
| "kind (JInt n) = ''number''"
| "kind (JFloat lit) = ''number''"
| "kind (JString s) = ''string''"
| "kind (JArray vs) = ''array''"
| "kind (JObject members) = ''object''"

fun set_int :: "json \<Rightarrow> go_int \<Rightarrow> string + go_int" where
  "set_int (JInt n) old =
     (if - (2 ^ 63) \<le> n \<and> n < 2 ^ 63 then Inr (of_int n) else Inl (''number '' @ decimal_int n))"
| "set_int (JFloat lit) old = Inl (''number '' @ lit)"
| "set_int JNull old = Inr old"
| "set_int v old = Inl (kind v)"

fun set_string :: "json \<Rightarrow> string \<Rightarrow> string + string" where
  "set_string (JString s) old = Inr s"
| "set_string JNull old = Inr old"
| "set_string v old = Inl (kind v)"

text \<open>
  A type error skips the field; decoding goes on with the next key and reports the first
  error at the end. A missing key is no error: the field keeps its value.
\<close>

definition first_error :: "decode_error option \<Rightarrow> decode_error \<Rightarrow> decode_error option" where
  "first_error saved e = (case saved of None \<Rightarrow> Some e | Some e' \<Rightarrow> Some e')"

definition decode_field ::
  "string \<times> json \<Rightarrow> decode_error option \<times> Product \<Rightarrow> decode_error option \<times> Product" where
  "decode_field kv ep =
     (case (kv, ep) of ((k, v), (saved, p)) \<Rightarrow>
        (case field_of_key k of
           None \<Rightarrow> (saved, p)
         | Some f \<Rightarrow>
             if f = ''id'' then
               (case set_int v (ID p) of
                  Inr i \<Rightarrow> (saved, p\<lparr>ID := i\<rparr>)
                | Inl d \<Rightarrow> (first_error saved (UnmarshalTypeError d ''Product.id'' ''int''), p))
             else if f = ''name'' then
               (case set_string v (Name p) of
                  Inr s \<Rightarrow> (saved, p\<lparr>Name := s\<rparr>)
                | Inl d \<Rightarrow> (first_error saved (UnmarshalTypeError d ''Product.name'' ''string''), p))
             else
               (case set_int v (Price p) of
                  Inr i \<Rightarrow> (saved, p\<lparr>Price := i\<rparr>)
                | Inl d \<Rightarrow> (first_error saved (UnmarshalTypeError d ''Product.price'' ''int''), p))))"

fun json_Decode :: "json_body \<Rightarrow> Product \<Rightarrow> decode_error option \<times> Product" where
  "json_Decode (Malformed msg) p = (Some (SyntaxError msg), p)"
| "json_Decode (WellFormed JNull) p = (None, p)"
| "json_Decode (WellFormed (JObject members)) p = fold decode_field members (None, p)"
| "json_Decode (WellFormed v) p = (Some (UnmarshalTypeError (kind v) [] ''main.Product''), p)"


section \<open>Runs: calls in sequence, and what a caller does with a result\<close>

text \<open>The service after a sequence of \<^verbatim>\<open>CreateProduct\<close> calls, one per element.\<close>

fun creates :: "Product list \<Rightarrow> ProductService \<Rightarrow> ProductService" where
  "creates [] ps = ps"
| "creates (p # xs) ps = creates xs (fst (snd (CreateProduct p ps)))"

text \<open>
  A caller that holds pointers can assign through them: \<open>writes\<close> is any sequence of
  such assignments. \<open>pointee\<close> is the record that the pointer returned by \<^verbatim>\<open>GetItem\<close>
  refers to.
\<close>

fun writes :: "'a heap \<Rightarrow> (nat \<times> 'a) list \<Rightarrow> 'a heap" where
  "writes h [] = h"
| "writes h ((a, v) # ws) = writes (store h a v) ws"

definition pointee :: "(string option \<times> ptr) \<times> Item heap \<Rightarrow> Item option" where
  "pointee r = (case snd (fst r) of None \<Rightarrow> None | Some a \<Rightarrow> load (snd r) a)"


section \<open>Interleaved calls\<close>

text \<open>
  Handlers run in one goroutine per request, so calls on the one service interleave.
  A \<^verbatim>\<open>sync.RWMutex\<close> is held by one writer or by a number of readers: \<^verbatim>\<open>Lock\<close> waits
  until there is neither, \<^verbatim>\<open>RLock\<close> waits while there is a writer. (A waiting \<^verbatim>\<open>Lock\<close>
  also holds back new readers; leaving that out only adds runs to those of the program,
  and the two runs evaluated below have no waiting \<^verbatim>\<open>Lock\<close>.) Mutexes are objects in
  a heap, because \<^verbatim>\<open>ProductService\<close> holds its mutex by value and a copy of the struct
  holds a copy of the mutex; address 0 is \<^verbatim>\<open>service.mu\<close>. The map is a reference: every
  copy of the struct refers to the same map.
\<close>

record rwmutex =
  writer :: bool
  readers :: nat

definition unlocked :: rwmutex where
  "unlocked = \<lparr>writer = False, readers = 0\<rparr>"

record shared =
  productService :: ProductService
  mutexes :: "rwmutex heap"
  stdout :: string

text \<open>
  A thread is the statement it executes next, with its local variables.
  \<^verbatim>\<open>CreateProduct\<close>, pointer receiver: \<open>C_Lock\<close> is \<^verbatim>\<open>ps.mu.Lock()\<close>, \<open>C_SetID\<close> is
  \<^verbatim>\<open>newProduct.ID = ps.nextID\<close>, \<open>C_Insert\<close> is \<^verbatim>\<open>ps.products[newProduct.ID] = newProduct\<close>,
  \<open>C_Increment\<close> is \<^verbatim>\<open>ps.nextID++\<close>, \<open>C_Printf\<close> the print, \<open>C_Unlock\<close> the deferred
  \<^verbatim>\<open>ps.mu.Unlock()\<close>.
  \<^verbatim>\<open>GetProducts\<close>, value receiver: \<open>G_Receiver\<close> is the call \<^verbatim>\<open>service.GetProducts()\<close>,
  which copies \<^verbatim>\<open>*service\<close> into the receiver \<^verbatim>\<open>ps\<close>; from then on the thread knows the
  address of \<^verbatim>\<open>ps.mu\<close>. \<open>G_RLock\<close> is \<^verbatim>\<open>ps.mu.RLock()\<close>, \<open>G_Make\<close> the \<^verbatim>\<open>make\<close>, \<open>G_Range\<close>
  one round of the loop (the keys still to visit, the slice so far) or its end,
  \<open>G_RUnlock\<close> the deferred \<^verbatim>\<open>ps.mu.RUnlock()\<close>.
\<close>

datatype thread =
    C_Lock Product
  | C_SetID Product
  | C_Insert Product
  | C_Increment Product
  | C_Printf Product
  | C_Unlock
  | C_Returned
  | G_Receiver "go_int list"
  | G_RLock nat "go_int list"
  | G_Make nat "go_int list"
  | G_Range nat "go_int list" "Product list"
  | G_RUnlock nat "Product list"
  | G_Returned "Product list"

text \<open>
  One statement of one thread. \<open>None\<close>: the thread cannot move, because it waits for a
  mutex or has returned (or would unlock a mutex that is not locked, which the runtime
  treats as fatal and which no run below reaches).
\<close>

fun exec :: "thread \<Rightarrow> shared \<Rightarrow> (thread \<times> shared) option" where
  "exec (C_Lock newProduct) m =
     (if writer (mutexes m ! 0) \<or> readers (mutexes m ! 0) \<noteq> 0 then None
      else Some (C_SetID newProduct, m\<lparr>mutexes := (mutexes m)[0 := (mutexes m ! 0)\<lparr>writer := True\<rparr>]\<rparr>))"
| "exec (C_SetID newProduct) m = Some (C_Insert (newProduct\<lparr>ID := nextID (productService m)\<rparr>), m)"
| "exec (C_Insert newProduct) m =
     Some (C_Increment newProduct,
           m\<lparr>productService := (productService m)\<lparr>products := (products (productService m))(ID newProduct \<mapsto> newProduct)\<rparr>\<rparr>)"
| "exec (C_Increment newProduct) m =
     Some (C_Printf newProduct, m\<lparr>productService := (productService m)\<lparr>nextID := nextID (productService m) + 1\<rparr>\<rparr>)"
| "exec (C_Printf newProduct) m =
     Some (C_Unlock,
           m\<lparr>stdout := stdout m @ ''Created new product: ID='' @ fmt_d (ID newProduct) @ '', Name=''
                  @ Name newProduct @ [CHR 0x0A]\<rparr>)"
| "exec C_Unlock m =
     (if writer (mutexes m ! 0)
      then Some (C_Returned, m\<lparr>mutexes := (mutexes m)[0 := (mutexes m ! 0)\<lparr>writer := False\<rparr>]\<rparr>)
      else None)"
| "exec C_Returned m = None"
| "exec (G_Receiver order) m =
     (case alloc (mutexes m) (mutexes m ! 0) of (mu, ms) \<Rightarrow> Some (G_RLock mu order, m\<lparr>mutexes := ms\<rparr>))"
| "exec (G_RLock mu order) m =
     (if writer (mutexes m ! mu) then None
      else Some (G_Make mu order,
                 m\<lparr>mutexes := (mutexes m)[mu := (mutexes m ! mu)\<lparr>readers := readers (mutexes m ! mu) + 1\<rparr>]\<rparr>))"
| "exec (G_Make mu order) m = Some (G_Range mu order [], m)"
| "exec (G_Range mu (k # ks) prods) m =
     Some (case products (productService m) k of
             None \<Rightarrow> G_Range mu ks prods
           | Some p \<Rightarrow> G_Range mu ks (prods @ [p]), m)"
| "exec (G_Range mu [] prods) m = Some (G_RUnlock mu prods, m)"
| "exec (G_RUnlock mu prods) m =
     (if readers (mutexes m ! mu) = 0 then None
      else Some (G_Returned prods,
                 m\<lparr>mutexes := (mutexes m)[mu := (mutexes m ! mu)\<lparr>readers := readers (mutexes m ! mu) - 1\<rparr>]\<rparr>))"
| "exec (G_Returned prods) m = None"

text \<open>
  A configuration is the shared memory and the threads. A schedule is the list of the
  threads that move, in order; \<open>run\<close> is \<open>None\<close> when a step of the schedule cannot be
  taken. \<open>start\<close> is a new service
  (\<^verbatim>\<open>productService := NewProductService()\<close> in \<^verbatim>\<open>main\<close>) with the given threads.
\<close>

definition step :: "nat \<Rightarrow> shared \<times> thread list \<Rightarrow> (shared \<times> thread list) option" where
  "step t c =
     (case c of (m, ts) \<Rightarrow>
        if t < length ts then
          (case exec (ts ! t) m of None \<Rightarrow> None | Some (th, m') \<Rightarrow> Some (m', ts[t := th]))
        else None)"

fun run :: "nat list \<Rightarrow> shared \<times> thread list \<Rightarrow> (shared \<times> thread list) option" where
  "run [] c = Some c"
| "run (t # sched) c = (case step t c of None \<Rightarrow> None | Some c' \<Rightarrow> run sched c')"

definition start :: "thread list \<Rightarrow> shared \<times> thread list" where
  "start ts = (\<lparr>productService = NewProductService, mutexes = [unlocked], stdout = []\<rparr>, ts)"


text \<open>
  \<open>in_CreateProduct\<close>: between \<^verbatim>\<open>Lock\<close> and \<^verbatim>\<open>Unlock\<close>. \<open>in_GetProducts\<close>: between
  \<^verbatim>\<open>RLock\<close> and \<^verbatim>\<open>RUnlock\<close>. \<open>called\<close>: at the first statement. \<open>receiver_mu\<close>: the
  address of the receiver's mutex. \<open>holders\<close>: how many threads are inside
  \<^verbatim>\<open>CreateProduct\<close>'s section.
\<close>

fun in_CreateProduct :: "thread \<Rightarrow> bool" where
  "in_CreateProduct (C_SetID p) = True"
| "in_CreateProduct (C_Insert p) = True"
| "in_CreateProduct (C_Increment p) = True"
| "in_CreateProduct (C_Printf p) = True"
| "in_CreateProduct C_Unlock = True"
| "in_CreateProduct th = False"

fun in_GetProducts :: "thread \<Rightarrow> bool" where
  "in_GetProducts (G_Make mu order) = True"
| "in_GetProducts (G_Range mu order prods) = True"
| "in_GetProducts (G_RUnlock mu prods) = True"
| "in_GetProducts th = False"

fun called :: "thread \<Rightarrow> bool" where
  "called (C_Lock p) = True"
| "called (G_Receiver order) = True"
| "called th = False"

fun receiver_mu :: "thread \<Rightarrow> nat option" where
  "receiver_mu (G_RLock mu order) = Some mu"
| "receiver_mu (G_Make mu order) = Some mu"
| "receiver_mu (G_Range mu order prods) = Some mu"
| "receiver_mu (G_RUnlock mu prods) = Some mu"
| "receiver_mu th = None"

definition holders :: "thread list \<Rightarrow> nat" where
  "holders ts = length (filter in_CreateProduct ts)"

definition lock_inv :: "shared \<times> thread list \<Rightarrow> bool" where
  "lock_inv c =
     (case c of (m, ts) \<Rightarrow>
        mutexes m \<noteq> [] \<and> readers (mutexes m ! 0) = 0 \<and>
        holders ts = (if writer (mutexes m ! 0) then 1 else 0) \<and>
        (\<forall>th \<in> set ts. \<forall>mu. receiver_mu th = Some mu \<longrightarrow> 0 < mu))"


section \<open>Lookups in the bare store\<close>

lemma length_writes: "length (writes h ws) = length h"
  by (induction ws arbitrary: h) (auto simp: store_def)

lemma items_fold_AddItem:
  "name \<notin> Item.Name ` set its \<Longrightarrow> items (fold AddItem its s) name = items s name"
  by (induction its arbitrary: s) (auto simp: AddItem_def)

lemma GetItem_absent:
  "items s name = None \<Longrightarrow> GetItem name s h = ((Some ''item not found'', None), h)"
  by (simp add: GetItem_def)

lemma GetItem_present:
  "items s name = Some item \<Longrightarrow> GetItem name s h = ((None, Some (length h)), h @ [item])"
  by (simp add: GetItem_def alloc_def)

text \<open>
  Claim C6. For every store and every name that is absent from it, and so for every name
  that was never passed to \<^verbatim>\<open>AddItem\<close> since \<^verbatim>\<open>NewStore\<close>, \<^verbatim>\<open>GetItem\<close> returns the
  error \<^verbatim>\<open>item not found\<close> and the \<^verbatim>\<open>nil\<close> pointer: no record, and none allocated.
\<close>

theorem GetItem_not_found:
  "(items s name = None \<longrightarrow> GetItem name s h = ((Some ''item not found'', None), h)) \<and>
   (name \<notin> Item.Name ` set its \<longrightarrow>
      GetItem name (fold AddItem its NewStore) h = ((Some ''item not found'', None), h))"
proof -
  have "items (fold AddItem its NewStore) name = None" if "name \<notin> Item.Name ` set its"
    using that by (simp add: items_fold_AddItem NewStore_def)
  then show ?thesis by (simp add: GetItem_absent)
qed

theorem GetItem_not_found_witness:
  "''Orange'' \<notin> Item.Name ` set [\<lparr>Item.Name = ''Apple'', Price = 1\<rparr>, \<lparr>Item.Name = ''Banana'', Price = 2\<rparr>] \<and>
   items NewStore ''Orange'' = None \<and>
   GetItem ''Orange''
     (fold AddItem [\<lparr>Item.Name = ''Apple'', Price = 1\<rparr>, \<lparr>Item.Name = ''Banana'', Price = 2\<rparr>] NewStore) []
     = ((Some ''item not found'', None), []) \<and>
   GetItem ''Orange'' NewStore [] = ((Some ''item not found'', None), [])"
  using GetItem_not_found [where s = NewStore and name = "''Orange''" and h = "[]"
      and its = "[\<lparr>Item.Name = ''Apple'', Price = 1\<rparr>, \<lparr>Item.Name = ''Banana'', Price = 2\<rparr>]"]
  by (simp add: NewStore_def)

text \<open>
  Claim C7. For every store and every record, \<^verbatim>\<open>AddItem\<close> with the record followed by
  \<^verbatim>\<open>GetItem\<close> with the record's name succeeds: the error is \<^verbatim>\<open>nil\<close> and the pointer
  refers to a record equal to the one inserted.
\<close>

theorem AddItem_then_GetItem:
  "GetItem (Item.Name item) (AddItem item s) h = ((None, Some (length h)), h @ [item]) \<and>
   load (h @ [item]) (length h) = Some item"
  by (simp add: GetItem_present AddItem_def load_def)

text \<open>
  Claim C9. The two results of \<^verbatim>\<open>GetItem\<close> exclude each other: exactly one of the error
  and the pointer is \<^verbatim>\<open>nil\<close>. For an absent name the error is set and the pointer is
  \<^verbatim>\<open>nil\<close>; for a present name the error is \<^verbatim>\<open>nil\<close> and the pointer refers to a newly
  allocated object that holds a copy of the stored record.
\<close>

theorem GetItem_results_exclusive:
  "case GetItem name s h of
     ((err, p), h') \<Rightarrow>
       (err = None) \<noteq> (p = None) \<and>
       (items s name = None \<longrightarrow> err \<noteq> None \<and> p = None \<and> h' = h) \<and>
       (\<forall>item. items s name = Some item \<longrightarrow>
          err = None \<and> (\<exists>a. p = Some a \<and> load h' a = Some item \<and> load h a = None))"
  by (cases "items s name") (simp_all add: GetItem_absent GetItem_present load_def)

theorem GetItem_results_exclusive_witness:
  "items (AddItem \<lparr>Item.Name = ''Apple'', Price = 1\<rparr> NewStore) ''Apple''
     = Some \<lparr>Item.Name = ''Apple'', Price = 1\<rparr> \<and>
   items (AddItem \<lparr>Item.Name = ''Apple'', Price = 1\<rparr> NewStore) ''Orange'' = None \<and>
   GetItem ''Apple'' (AddItem \<lparr>Item.Name = ''Apple'', Price = 1\<rparr> NewStore) [] =
     ((None, Some 0), [\<lparr>Item.Name = ''Apple'', Price = 1\<rparr>]) \<and>
   GetItem ''Orange'' (AddItem \<lparr>Item.Name = ''Apple'', Price = 1\<rparr> NewStore) [] =
     ((Some ''item not found'', None), [])"
  using GetItem_results_exclusive [where name = "''Apple''" and h = "[]"
        and s = "AddItem \<lparr>Item.Name = ''Apple'', Price = 1\<rparr> NewStore"]
    GetItem_results_exclusive [where name = "''Orange''" and h = "[]"
        and s = "AddItem \<lparr>Item.Name = ''Apple'', Price = 1\<rparr> NewStore"]
  by (simp add: AddItem_def NewStore_def GetItem_def alloc_def)


section \<open>Copies\<close>

lemma range_append_map:
  "set ks \<subseteq> dom m \<Longrightarrow> range_append m ks acc = acc @ map (\<lambda>k. the (m k)) ks"
  by (induction ks arbitrary: acc) (auto split: option.splits)

lemma GetProducts_contents:
  assumes "iteration_order (products ps) order"
  shows "GetProducts order ps h = (length h, h @ [map (\<lambda>k. the (products ps k)) order])"
  using assms range_append_map [of order "products ps" "[]"]
  by (simp add: GetProducts_def alloc_def iteration_order_def)

text \<open>
  Copy isolation, for calls that run one at a time. What \<^verbatim>\<open>GetItem\<close> and \<^verbatim>\<open>GetProducts\<close>
  hand out are copies. After a first call,
  let the caller assign anything through any pointer it holds (\<open>writes\<close>): a second call
  returns the same error and a record equal to the first, which is the stored one. The
  slice of \<^verbatim>\<open>GetProducts\<close> is a backing array that did not exist before the call; a
  second call returns another array with the same contents, and for an iteration over
  the keys of the map the contents are the records stored at the time of the call.
\<close>

theorem returned_records_are_copies:
  "(let r1 = GetItem name s h; r2 = GetItem name s (writes (snd r1) ws)
    in fst (fst r2) = fst (fst r1) \<and> pointee r2 = pointee r1 \<and> pointee r1 = items s name) \<and>
   (case GetProducts order ps g of
      (a1, g1) \<Rightarrow>
        (case GetProducts order ps (writes g1 ws') of
           (a2, g2) \<Rightarrow>
             load g a1 = None \<and> a2 \<noteq> a1 \<and> load g2 a2 = load g1 a1 \<and>
             (iteration_order (products ps) order \<longrightarrow>
                load g1 a1 = Some (map (\<lambda>k. the (products ps k)) order))))"
proof -
  have 1: "(let r1 = GetItem name s h; r2 = GetItem name s (writes (snd r1) ws)
    in fst (fst r2) = fst (fst r1) \<and> pointee r2 = pointee r1 \<and> pointee r1 = items s name)"
    by (cases "items s name")
       (simp_all add: GetItem_absent GetItem_present pointee_def load_def length_writes Let_def
          nth_append)
  have 2: "range_append (products ps) order [] = map (\<lambda>k. the (products ps k)) order"
    if "iteration_order (products ps) order"
    using that range_append_map [of order "products ps" "[]"] by (simp add: iteration_order_def)
  show ?thesis
    using 1 2 by (simp add: GetProducts_def alloc_def load_def length_writes nth_append)
qed

theorem returned_records_are_copies_witness:
  "iteration_order
     (products (creates [\<lparr>ID = 0, Name = ''Apple'', Price = 1\<rparr>] NewProductService)) [1] \<and>
   GetItem ''Apple'' (AddItem \<lparr>Item.Name = ''Apple'', Price = 1\<rparr> NewStore) []
     = ((None, Some 0), [\<lparr>Item.Name = ''Apple'', Price = 1\<rparr>]) \<and>
   GetItem ''Apple'' (AddItem \<lparr>Item.Name = ''Apple'', Price = 1\<rparr> NewStore)
       (writes [\<lparr>Item.Name = ''Apple'', Price = 1\<rparr>] [(0, \<lparr>Item.Name = ''Pear'', Price = 9\<rparr>)])
     = ((None, Some 1), [\<lparr>Item.Name = ''Pear'', Price = 9\<rparr>, \<lparr>Item.Name = ''Apple'', Price = 1\<rparr>]) \<and>
   GetProducts [1] (creates [\<lparr>ID = 0, Name = ''Apple'', Price = 1\<rparr>] NewProductService) []
     = (0, [[\<lparr>ID = 1, Name = ''Apple'', Price = 1\<rparr>]]) \<and>
   GetProducts [1] (creates [\<lparr>ID = 0, Name = ''Apple'', Price = 1\<rparr>] NewProductService)
       (writes [[\<lparr>ID = 1, Name = ''Apple'', Price = 1\<rparr>]] [(0, [])])
     = (1, [[], [\<lparr>ID = 1, Name = ''Apple'', Price = 1\<rparr>]])"
  using returned_records_are_copies [where name = "''Apple''" and h = "[]"
      and s = "AddItem \<lparr>Item.Name = ''Apple'', Price = 1\<rparr> NewStore"
      and ws = "[(0, \<lparr>Item.Name = ''Pear'', Price = 9\<rparr>)]"
      and order = "[1]" and g = "[]" and ws' = "[(0, [])]"
      and ps = "creates [\<lparr>ID = 0, Name = ''Apple'', Price = 1\<rparr>] NewProductService"]
  by (simp add: AddItem_def NewStore_def GetItem_def alloc_def store_def iteration_order_def
      GetProducts_def CreateProduct_def NewProductService_def Let_def)

section \<open>The product service: the state after a sequence of calls\<close>

lemma creates_snoc: "creates (xs @ [p]) ps = fst (snd (CreateProduct p (creates xs ps)))"
  by (induction xs arbitrary: ps) simp_all

lemma CreateProduct_state:
  "fst (snd (CreateProduct p ps)) =
     \<lparr>products = (products ps)(nextID ps \<mapsto> p\<lparr>ID := nextID ps\<rparr>), nextID = nextID ps + 1\<rparr>"
  by (simp add: CreateProduct_def Let_def)

lemma creates_nextID: "nextID (creates xs NewProductService) = of_nat (length xs + 1)"
  by (induction xs rule: rev_induct) (simp_all add: creates_snoc CreateProduct_state NewProductService_def)

lemma creates_dom: "dom (products (creates xs NewProductService)) = of_nat ` {1..length xs}"
proof (induction xs rule: rev_induct)
  case Nil
  then show ?case by (simp add: NewProductService_def)
next
  case (snoc p xs)
  have "{1..Suc (length xs)} = insert (Suc (length xs)) {1..length xs}" by auto
  then have "of_nat ` {1..length (xs @ [p])} =
      insert (nextID (creates xs NewProductService)) (of_nat ` {1..length xs} :: go_int set)"
    by (simp add: creates_nextID)
  moreover have "dom (products (creates (xs @ [p]) NewProductService)) =
      insert (nextID (creates xs NewProductService)) (dom (products (creates xs NewProductService)))"
    by (simp add: creates_snoc CreateProduct_state)
  ultimately show ?case using snoc by simp
qed

lemma creates_ID: "products (creates xs NewProductService) k = Some p \<Longrightarrow> ID p = k"
  by (induction xs arbitrary: k p rule: rev_induct)
     (auto simp: creates_snoc CreateProduct_state NewProductService_def split: if_splits)

lemma sint_of_nat_small: "n < 2 ^ 63 \<Longrightarrow> sint (of_nat n :: go_int) = int n"
proof -
  assume "n < 2 ^ 63"
  then have "int n < 2 ^ 63" by (metis of_nat_less_iff of_nat_numeral of_nat_power)
  then have "signed_take_bit 63 (int n) = int n"
    by (intro signed_take_bit_int_eq_self) simp_all
  moreover have "sint (of_nat n :: go_int) = sint (word_of_int (int n) :: go_int)" by simp
  ultimately show ?thesis by (simp only: sint_sbintrunc') simp
qed

lemma of_nat_inj_small: "inj_on (of_nat :: nat \<Rightarrow> go_int) {..< 2 ^ 64}"
  by (rule inj_onI) (simp add: word_of_nat_eq_iff take_bit_nat_eq_self)

lemma sint_image_ids:
  assumes "n < 2 ^ 63"
  shows "sint ` (of_nat ` {1..n} :: go_int set) = {1..int n}"
proof -
  have "sint (of_nat k :: go_int) = int k" if "k \<in> {1..n}" for k
    using that assms by (intro sint_of_nat_small) simp
  then have "sint ` (of_nat ` {1..n} :: go_int set) = int ` {1..n}"
    by (simp add: image_image)
  then show ?thesis by (simp add: image_int_atLeastAtMost)
qed

lemma card_ids:
  assumes "n < 2 ^ 63"
  shows "card (of_nat ` {1..n} :: go_int set) = n"
proof -
  have "{1..n} \<subseteq> {..< 2 ^ 64}" using assms by auto
  then have "inj_on (of_nat :: nat \<Rightarrow> go_int) {1..n}"
    by (rule inj_on_subset [OF of_nat_inj_small])
  then show ?thesis by (simp add: card_image)
qed

lemma fresh_id:
  assumes "n < 2 ^ 63"
  shows "(of_nat (Suc n) :: go_int) \<notin> of_nat ` {1..n}"
proof
  assume "(of_nat (Suc n) :: go_int) \<in> of_nat ` {1..n}"
  then obtain k where k: "k \<in> {1..n}" "(of_nat (Suc n) :: go_int) = of_nat k" by auto
  have "Suc n \<in> {..< 2 ^ 64}" and "k \<in> {..< 2 ^ 64}" using assms k(1) by auto
  then have "Suc n = k" by (rule inj_onD [OF of_nat_inj_small k(2)])
  with k(1) show False by simp
qed


section \<open>Interleaved calls: what the locks exclude\<close>

text \<open>A thread that runs alone does what the call does.\<close>

lemma CreateProduct_alone:
  "run [0, 0, 0, 0, 0, 0] (\<lparr>productService = ps, mutexes = [unlocked], stdout = out\<rparr>, [C_Lock p])
     = Some (\<lparr>productService = fst (snd (CreateProduct p ps)), mutexes = [unlocked],
              stdout = out @ snd (snd (CreateProduct p ps))\<rparr>, [C_Returned])"
  by (simp add: step_def unlocked_def CreateProduct_def Let_def)

lemma range_steps:
  "run (replicate (length order) 0) (m, [G_Range mu order prods])
     = Some (m, [G_Range mu [] (range_append (products (productService m)) order prods)])"
  by (induction order arbitrary: prods) (auto simp: step_def split: option.splits)

lemma run_append:
  "run (s1 @ s2) c = (case run s1 c of None \<Rightarrow> None | Some c' \<Rightarrow> run s2 c')"
  by (induction s1 arbitrary: c) (auto split: option.splits)

lemma GetProducts_alone:
  "run ([0, 0, 0] @ replicate (length order) 0 @ [0, 0])
       (\<lparr>productService = ps, mutexes = [unlocked], stdout = out\<rparr>, [G_Receiver order])
     = Some (\<lparr>productService = ps, mutexes = [unlocked, unlocked], stdout = out\<rparr>,
             [G_Returned (range_append (products ps) order [])])"
proof -
  have 1: "run [0, 0, 0] (\<lparr>productService = ps, mutexes = [unlocked], stdout = out\<rparr>, [G_Receiver order])
     = Some (\<lparr>productService = ps, mutexes = [unlocked, unlocked\<lparr>readers := 1\<rparr>], stdout = out\<rparr>,
             [G_Range 1 order []])"
    by (simp add: step_def alloc_def unlocked_def)
  have 2: "run [0, 0] (\<lparr>productService = ps, mutexes = [unlocked, unlocked\<lparr>readers := 1\<rparr>], stdout = out\<rparr>,
             [G_Range 1 [] (range_append (products ps) order [])])
     = Some (\<lparr>productService = ps, mutexes = [unlocked, unlocked], stdout = out\<rparr>,
             [G_Returned (range_append (products ps) order [])])"
    by (simp add: step_def unlocked_def)
  show ?thesis
    by (simp only: run_append 1 range_steps 2 option.case shared.simps)
qed


text \<open>
  \<^verbatim>\<open>CreateProduct\<close> locks \<^verbatim>\<open>service.mu\<close> itself. In every run, whatever the threads and
  the schedule, at most one thread is between its \<^verbatim>\<open>Lock\<close> and its \<^verbatim>\<open>Unlock\<close>.
\<close>

lemma holders_update:
  "t < length ts \<Longrightarrow>
   holders (ts[t := th]) + (if in_CreateProduct (ts ! t) then 1 else 0)
     = holders ts + (if in_CreateProduct th then 1 else 0)"
  unfolding holders_def
proof (induction ts arbitrary: t)
  case Nil
  then show ?case by simp
next
  case (Cons a ts)
  then show ?case by (cases t) auto
qed

lemma receiver_update:
  assumes "\<forall>x \<in> set ts. \<forall>mu. receiver_mu x = Some mu \<longrightarrow> 0 < mu"
    and "\<forall>mu. receiver_mu th = Some mu \<longrightarrow> 0 < mu"
  shows "\<forall>x \<in> set (ts[t := th]). \<forall>mu. receiver_mu x = Some mu \<longrightarrow> 0 < mu"
proof
  fix x assume "x \<in> set (ts[t := th])"
  then have "x = th \<or> x \<in> set ts"
    using set_update_subset_insert [of ts t th] by auto
  with assms show "\<forall>mu. receiver_mu x = Some mu \<longrightarrow> 0 < mu" by blast
qed

lemma exec_receiver:
  assumes "exec th0 m = Some (th, m')" and "mutexes m \<noteq> []"
    and "\<forall>mu. receiver_mu th0 = Some mu \<longrightarrow> 0 < mu"
  shows "\<forall>mu. receiver_mu th = Some mu \<longrightarrow> 0 < mu"
proof (cases th0)
  case (G_Range mu order prods)
  with assms show ?thesis by (cases order) (auto split: option.splits)
qed (use assms in \<open>auto simp: alloc_def split: if_splits\<close>)

lemma exec_mutex:
  assumes "exec th0 m = Some (th, m')" and "mutexes m \<noteq> []"
    and "readers (mutexes m ! 0) = 0"
    and "\<forall>mu. receiver_mu th0 = Some mu \<longrightarrow> 0 < mu"
  shows "mutexes m' \<noteq> [] \<and> readers (mutexes m' ! 0) = 0 \<and>
         (if writer (mutexes m' ! 0) then 1 else 0) + (if in_CreateProduct th0 then 1 else 0)
           = (if writer (mutexes m ! 0) then 1 else 0) + (if in_CreateProduct th then (1::nat) else 0)"
proof (cases th0)
  case (G_Range mu order prods)
  with assms show ?thesis by (cases order) (auto split: option.splits)
next
  case (G_Receiver order)
  with assms show ?thesis by (auto simp: alloc_def nth_append)
qed (use assms in \<open>auto split: if_splits\<close>)

lemma exec_inv:
  assumes inv: "lock_inv (m, ts)" and t: "t < length ts" and ex: "exec (ts ! t) m = Some (th, m')"
  shows "lock_inv (m', ts[t := th])"
proof -
  from inv have ne: "mutexes m \<noteq> []" and rd: "readers (mutexes m ! 0) = 0"
    and hs: "holders ts = (if writer (mutexes m ! 0) then 1 else 0)"
    and rc: "\<forall>x \<in> set ts. \<forall>mu. receiver_mu x = Some mu \<longrightarrow> 0 < mu"
    by (simp_all add: lock_inv_def)
  have "ts ! t \<in> set ts" using t by simp
  with rc have own: "\<forall>mu. receiver_mu (ts ! t) = Some mu \<longrightarrow> 0 < mu" by blast
  have rc': "\<forall>x \<in> set (ts[t := th]). \<forall>mu. receiver_mu x = Some mu \<longrightarrow> 0 < mu"
    by (rule receiver_update [OF rc exec_receiver [OF ex ne own]])
  from exec_mutex [OF ex ne rd own]
  have ne': "mutexes m' \<noteq> []" and rd': "readers (mutexes m' ! 0) = 0"
    and w: "(if writer (mutexes m' ! 0) then 1 else 0) + (if in_CreateProduct (ts ! t) then 1 else 0)
           = (if writer (mutexes m ! 0) then 1 else 0) + (if in_CreateProduct th then (1::nat) else 0)"
    by blast+
  from holders_update [OF t, of th] hs w
  have "holders (ts[t := th]) = (if writer (mutexes m' ! 0) then 1 else 0)" by linarith
  with ne' rd' rc' show ?thesis by (simp add: lock_inv_def)
qed

lemma step_inv: "lock_inv c \<Longrightarrow> step t c = Some c' \<Longrightarrow> lock_inv c'"
  by (cases c) (auto simp: step_def exec_inv split: if_splits option.splits)

lemma run_inv: "lock_inv c \<Longrightarrow> run sched c = Some c' \<Longrightarrow> lock_inv c'"
  by (induction sched arbitrary: c) (auto dest: step_inv split: option.splits)

lemma start_inv: "\<forall>th \<in> set ts. called th \<Longrightarrow> lock_inv (start ts)"
proof -
  assume a: "\<forall>th \<in> set ts. called th"
  have "\<not> in_CreateProduct th \<and> receiver_mu th = None" if "called th" for th
    using that by (cases th) simp_all
  with a have "filter in_CreateProduct ts = []" and "\<forall>th \<in> set ts. receiver_mu th = None"
    by (auto simp: filter_empty_conv)
  then show ?thesis by (simp add: lock_inv_def start_def holders_def unlocked_def)
qed

lemma CreateProduct_calls_exclude:
  assumes "\<forall>th \<in> set ts. called th" and "run sched (start ts) = Some (m, ts')"
  shows "holders ts' \<le> 1"
  using run_inv [OF start_inv [OF assms(1)] assms(2)] by (simp add: lock_inv_def split: if_splits)


section \<open>Creating products\<close>

text \<open>
  Claim C1, as amended. \<^verbatim>\<open>CreateProduct\<close> gives the record the current value of
  \<^verbatim>\<open>nextID\<close> as its \<^verbatim>\<open>ID\<close>, whatever \<^verbatim>\<open>ID\<close> the caller supplied, stores it under that
  key and increments the counter, all in the one call; and in every run of interleaved
  calls on a new service at most one thread is between the \<^verbatim>\<open>Lock\<close> and the \<^verbatim>\<open>Unlock\<close>
  of \<^verbatim>\<open>CreateProduct\<close>, so no other call comes between the insertion and the
  increment. The call returns nothing: the identity appears only in the line printed to
  standard output.
\<close>

theorem CreateProduct_assigns_nextID:
  "CreateProduct newProduct ps =
     ((),
      \<lparr>products = (products ps)(nextID ps \<mapsto> newProduct\<lparr>ID := nextID ps\<rparr>),
       nextID = nextID ps + 1\<rparr>,
      ''Created new product: ID='' @ fmt_d (nextID ps) @ '', Name='' @ Name newProduct
        @ [CHR 0x0A]) \<and>
   CreateProduct (newProduct\<lparr>ID := i\<rparr>) ps = CreateProduct newProduct ps \<and>
   (list_all called ts \<and> run sched (start ts) = Some (m, ts') \<longrightarrow> holders ts' \<le> 1)"
proof -
  have "holders ts' \<le> 1" if "list_all called ts" and "run sched (start ts) = Some (m, ts')"
    using that CreateProduct_calls_exclude [of ts sched m ts'] by (simp add: list_all_iff)
  then show ?thesis by (simp add: CreateProduct_def Let_def)
qed

theorem CreateProduct_assigns_nextID_witness:
  "list_all called [C_Lock \<lparr>ID = 0, Name = ''Apple'', Price = 1\<rparr>,
                    C_Lock \<lparr>ID = 0, Name = ''Banana'', Price = 2\<rparr>] \<and>
   run [0, 0, 0] (start [C_Lock \<lparr>ID = 0, Name = ''Apple'', Price = 1\<rparr>,
                         C_Lock \<lparr>ID = 0, Name = ''Banana'', Price = 2\<rparr>])
     = Some (\<lparr>productService =
                \<lparr>products = [1 \<mapsto> \<lparr>ID = 1, Name = ''Apple'', Price = 1\<rparr>], nextID = 1\<rparr>,
              mutexes = [\<lparr>writer = True, readers = 0\<rparr>], stdout = []\<rparr>,
             [C_Increment \<lparr>ID = 1, Name = ''Apple'', Price = 1\<rparr>,
              C_Lock \<lparr>ID = 0, Name = ''Banana'', Price = 2\<rparr>]) \<and>
   holders [C_Increment \<lparr>ID = 1, Name = ''Apple'', Price = 1\<rparr>,
            C_Lock \<lparr>ID = 0, Name = ''Banana'', Price = 2\<rparr>] \<le> 1 \<and>
   step 1 (\<lparr>productService =
              \<lparr>products = [1 \<mapsto> \<lparr>ID = 1, Name = ''Apple'', Price = 1\<rparr>], nextID = 1\<rparr>,
            mutexes = [\<lparr>writer = True, readers = 0\<rparr>], stdout = []\<rparr>,
           [C_Increment \<lparr>ID = 1, Name = ''Apple'', Price = 1\<rparr>,
            C_Lock \<lparr>ID = 0, Name = ''Banana'', Price = 2\<rparr>]) = None"
proof -
  let ?ts = "[C_Lock \<lparr>ID = 0, Name = ''Apple'', Price = 1\<rparr>,
              C_Lock \<lparr>ID = 0, Name = ''Banana'', Price = 2\<rparr>]"
  let ?m = "\<lparr>productService =
                \<lparr>products = [1 \<mapsto> \<lparr>ID = 1, Name = ''Apple'', Price = 1\<rparr>], nextID = 1\<rparr>,
              mutexes = [\<lparr>writer = True, readers = 0\<rparr>], stdout = []\<rparr>"
  let ?ts' = "[C_Increment \<lparr>ID = 1, Name = ''Apple'', Price = 1\<rparr>,
               C_Lock \<lparr>ID = 0, Name = ''Banana'', Price = 2\<rparr>]"
  have c: "list_all called ?ts" by simp
  have r: "run [0, 0, 0] (start ?ts) = Some (?m, ?ts')"
    by (simp add: start_def step_def unlocked_def NewProductService_def)
  have h: "holders ?ts' \<le> 1"
    using CreateProduct_assigns_nextID [where ts = ?ts and sched = "[0, 0, 0]" and m = ?m
        and ts' = ?ts'] c r by blast
  have b: "step 1 (?m, ?ts') = None" by (simp add: step_def)
  from c r h b show ?thesis by blast
qed

text \<open>
  The claim as written has the call return the identity. Two calls in a row are given
  the identities 1 and 2 and return the same, empty, result; the handler's replies to
  the two requests are equal as well.
\<close>

theorem CreateProduct_result_counterexample:
  "fst (CreateProduct \<lparr>ID = 0, Name = ''Apple'', Price = 1\<rparr> NewProductService) = () \<and>
   fst (CreateProduct \<lparr>ID = 0, Name = ''Banana'', Price = 2\<rparr>
          (creates [\<lparr>ID = 0, Name = ''Apple'', Price = 1\<rparr>] NewProductService)) = () \<and>
   products (creates [\<lparr>ID = 0, Name = ''Apple'', Price = 1\<rparr>] NewProductService) 1
     = Some \<lparr>ID = 1, Name = ''Apple'', Price = 1\<rparr> \<and>
   products (creates [\<lparr>ID = 0, Name = ''Apple'', Price = 1\<rparr>,
                      \<lparr>ID = 0, Name = ''Banana'', Price = 2\<rparr>] NewProductService) 2
     = Some \<lparr>ID = 2, Name = ''Banana'', Price = 2\<rparr> \<and>
   fst (createProductHandler json_Decode error_text
          \<lparr>Method = ''POST'',
           Body = WellFormed (JObject [(''name'', JString ''Apple''), (''price'', JInt 1)])\<rparr>
          NewProductService)
     = \<lparr>Status = 201, Header = [], Written = ''Product created successfully''\<rparr> \<and>
   fst (createProductHandler json_Decode error_text
          \<lparr>Method = ''POST'',
           Body = WellFormed (JObject [(''name'', JString ''Banana''), (''price'', JInt 2)])\<rparr>
          (creates [\<lparr>ID = 0, Name = ''Apple'', Price = 1\<rparr>] NewProductService))
     = \<lparr>Status = 201, Header = [], Written = ''Product created successfully''\<rparr>"
  by (simp add: CreateProduct_def NewProductService_def Let_def createProductHandler_def
      decode_field_def field_of_key_def to_lower_def zero_Product_def StatusCreated_def)

text \<open>
  Claim C2. From a new service, the call that follows \<open>i\<close> completed calls is given the
  identity \<open>1 + i\<close>, an identity no earlier call was given, and its record is stored
  under it. After \<open>N\<close> calls \<^verbatim>\<open>GetProducts\<close> returns \<open>N\<close> records whose identities are
  exactly \<open>1, \<dots>, N\<close>, in whatever order the map is iterated. \<open>N\<close> is below \<open>2 ^ 63\<close>:
  the map holds every record created, and the length of a Go map is an \<^verbatim>\<open>int\<close>.
\<close>

theorem identities_count_up:
  assumes "length xs < 2 ^ 63"
    and "iteration_order (products (creates xs NewProductService)) order"
  shows "(\<forall>i < length xs.
            sint (nextID (creates (take i xs) NewProductService)) = 1 + int i \<and>
            nextID (creates (take i xs) NewProductService)
              \<notin> dom (products (creates (take i xs) NewProductService)) \<and>
            products (creates (take (Suc i) xs) NewProductService)
                (nextID (creates (take i xs) NewProductService))
              = Some ((xs ! i)\<lparr>ID := nextID (creates (take i xs) NewProductService)\<rparr>)) \<and>
         (case GetProducts order (creates xs NewProductService) h of
            (a, h') \<Rightarrow>
              length (h' ! a) = length xs \<and> sint ` ID ` set (h' ! a) = {1..int (length xs)})"
proof -
  let ?s = "creates xs NewProductService"
  have calls: "sint (nextID (creates (take i xs) NewProductService)) = 1 + int i \<and>
            nextID (creates (take i xs) NewProductService)
              \<notin> dom (products (creates (take i xs) NewProductService)) \<and>
            products (creates (take (Suc i) xs) NewProductService)
                (nextID (creates (take i xs) NewProductService))
              = Some ((xs ! i)\<lparr>ID := nextID (creates (take i xs) NewProductService)\<rparr>)"
    if i: "i < length xs" for i
  proof -
    have len: "length (take i xs) = i" using i by simp
    have small: "Suc i < 2 ^ 63" "i < 2 ^ 63" using i assms(1) by simp_all
    have nxt: "nextID (creates (take i xs) NewProductService) = of_nat (Suc i)"
      by (simp only: creates_nextID len Suc_eq_plus1)
    have dm: "dom (products (creates (take i xs) NewProductService)) = of_nat ` {1..i}"
      by (simp only: creates_dom len)
    have a: "sint (nextID (creates (take i xs) NewProductService)) = 1 + int i"
      using sint_of_nat_small [OF small(1)] by (simp only: nxt)
    have b: "nextID (creates (take i xs) NewProductService)
              \<notin> dom (products (creates (take i xs) NewProductService))"
      unfolding nxt dm by (rule fresh_id [OF small(2)])
    have "take (Suc i) xs = take i xs @ [xs ! i]" using i by (simp add: take_Suc_conv_app_nth)
    then have c: "products (creates (take (Suc i) xs) NewProductService)
                (nextID (creates (take i xs) NewProductService))
              = Some ((xs ! i)\<lparr>ID := nextID (creates (take i xs) NewProductService)\<rparr>)"
      by (simp add: creates_snoc CreateProduct_state)
    from a b c show ?thesis by blast
  qed
  have ord: "distinct order" "set order = dom (products ?s)"
    using assms(2) by (simp_all add: iteration_order_def)
  have "length order = card (dom (products ?s))"
    using ord by (metis distinct_card)
  then have n: "length order = length xs"
    using card_ids [OF assms(1)] by (simp add: creates_dom)
  have "ID (the (products ?s k)) = k" if "k \<in> set order" for k
    using that ord(2) creates_ID by fastforce
  then have "ID ` set (map (\<lambda>k. the (products ?s k)) order) = set order"
    by (simp add: image_image)
  then have ids: "sint ` ID ` set (map (\<lambda>k. the (products ?s k)) order) = {1..int (length xs)}"
    using sint_image_ids [OF assms(1)] by (simp add: ord(2) creates_dom)
  have list: "(case GetProducts order ?s h of
            (a, h') \<Rightarrow>
              length (h' ! a) = length xs \<and> sint ` ID ` set (h' ! a) = {1..int (length xs)})"
    using n ids by (simp add: GetProducts_contents [OF assms(2)] del: set_map)
  from calls list show ?thesis by blast
qed


theorem identities_count_up_witness:
  "length [\<lparr>ID = 7, Name = ''Apple'', Price = 1\<rparr>, \<lparr>ID = 7, Name = ''Banana'', Price = 2\<rparr>]
     < (2::nat) ^ 63 \<and>
   iteration_order
     (products (creates [\<lparr>ID = 7, Name = ''Apple'', Price = 1\<rparr>,
                         \<lparr>ID = 7, Name = ''Banana'', Price = 2\<rparr>] NewProductService)) [2, 1] \<and>
   GetProducts [2, 1]
     (creates [\<lparr>ID = 7, Name = ''Apple'', Price = 1\<rparr>,
               \<lparr>ID = 7, Name = ''Banana'', Price = 2\<rparr>] NewProductService) []
     = (0, [[\<lparr>ID = 2, Name = ''Banana'', Price = 2\<rparr>, \<lparr>ID = 1, Name = ''Apple'', Price = 1\<rparr>]]) \<and>
   sint ` ID ` set [\<lparr>ID = 2, Name = ''Banana'', Price = 2\<rparr>, \<lparr>ID = 1, Name = ''Apple'', Price = 1\<rparr>]
     = {1..int 2}"
proof -
  let ?xs = "[\<lparr>ID = 7, Name = ''Apple'', Price = 1\<rparr>, \<lparr>ID = 7, Name = ''Banana'', Price = 2\<rparr>]"
  have len: "length ?xs < (2::nat) ^ 63" by simp
  have ord: "iteration_order (products (creates ?xs NewProductService)) [2, 1]"
    by (auto simp: iteration_order_def CreateProduct_def NewProductService_def Let_def)
  have run: "GetProducts [2, 1] (creates ?xs NewProductService) []
     = (0, [[\<lparr>ID = 2, Name = ''Banana'', Price = 2\<rparr>, \<lparr>ID = 1, Name = ''Apple'', Price = 1\<rparr>]])"
    by (simp add: GetProducts_def alloc_def CreateProduct_def NewProductService_def Let_def)
  have "sint ` ID ` set [\<lparr>ID = 2, Name = ''Banana'', Price = 2\<rparr>, \<lparr>ID = 1, Name = ''Apple'', Price = 1\<rparr>]
     = {1..int 2}"
    using conjunct2 [OF identities_count_up [OF len ord, of "[]"]] unfolding run by simp
  with len ord run show ?thesis by blast
qed

text \<open>
  Claim C10. In every state reached from \<^verbatim>\<open>NewProductService\<close> by \<^verbatim>\<open>CreateProduct\<close> calls,
  the keys of \<^verbatim>\<open>products\<close> are exactly \<open>1, \<dots>, nextID - 1\<close>, every record's \<^verbatim>\<open>ID\<close> is the
  key it is stored under, and \<^verbatim>\<open>nextID\<close> is not yet a key, so the next call overwrites
  nothing. The number of calls is below \<open>2 ^ 63 - 1\<close>: the map holds every record
  created, the length of a Go map is an \<^verbatim>\<open>int\<close>, and at \<open>2 ^ 63 - 1\<close> records
  \<^verbatim>\<open>nextID\<close> would leave the range of \<^verbatim>\<open>int\<close>.
\<close>

theorem reachable_invariant:
  assumes "length xs < 2 ^ 63 - 1"
  shows "sint ` dom (products (creates xs NewProductService))
           = {1..sint (nextID (creates xs NewProductService)) - 1} \<and>
         (\<forall>k p. products (creates xs NewProductService) k = Some p \<longrightarrow> ID p = k) \<and>
         nextID (creates xs NewProductService) \<notin> dom (products (creates xs NewProductService))"
proof -
  have small: "length xs < 2 ^ 63" "Suc (length xs) < 2 ^ 63" using assms by simp_all
  have nxt: "nextID (creates xs NewProductService) = of_nat (Suc (length xs))"
    by (simp only: creates_nextID Suc_eq_plus1)
  have "sint (nextID (creates xs NewProductService)) = int (length xs) + 1"
    using sint_of_nat_small [OF small(2)] by (simp only: nxt)
  then have "sint ` dom (products (creates xs NewProductService))
           = {1..sint (nextID (creates xs NewProductService)) - 1}"
    using sint_image_ids [OF small(1)] by (simp add: creates_dom)
  moreover have "nextID (creates xs NewProductService) \<notin> dom (products (creates xs NewProductService))"
    unfolding nxt creates_dom by (rule fresh_id [OF small(1)])
  ultimately show ?thesis using creates_ID by blast
qed


theorem reachable_invariant_witness:
  "length [\<lparr>ID = 7, Name = ''Apple'', Price = 1\<rparr>, \<lparr>ID = 7, Name = ''Banana'', Price = 2\<rparr>]
     < (2::nat) ^ 63 - 1 \<and>
   nextID (creates [\<lparr>ID = 7, Name = ''Apple'', Price = 1\<rparr>,
                    \<lparr>ID = 7, Name = ''Banana'', Price = 2\<rparr>] NewProductService) = 3 \<and>
   sint ` dom (products (creates [\<lparr>ID = 7, Name = ''Apple'', Price = 1\<rparr>,
                    \<lparr>ID = 7, Name = ''Banana'', Price = 2\<rparr>] NewProductService)) = {1..2} \<and>
   products (creates [\<lparr>ID = 7, Name = ''Apple'', Price = 1\<rparr>,
                    \<lparr>ID = 7, Name = ''Banana'', Price = 2\<rparr>] NewProductService) 2
     = Some \<lparr>ID = 2, Name = ''Banana'', Price = 2\<rparr>"
proof -
  let ?xs = "[\<lparr>ID = 7, Name = ''Apple'', Price = 1\<rparr>, \<lparr>ID = 7, Name = ''Banana'', Price = 2\<rparr>]"
  have len: "length ?xs < (2::nat) ^ 63 - 1" by simp
  have nxt: "nextID (creates ?xs NewProductService) = 3"
    by (simp add: CreateProduct_def NewProductService_def Let_def)
  have rec: "products (creates ?xs NewProductService) 2 = Some \<lparr>ID = 2, Name = ''Banana'', Price = 2\<rparr>"
    by (simp add: CreateProduct_def NewProductService_def Let_def)
  from reachable_invariant [OF len]
  have "sint ` dom (products (creates ?xs NewProductService)) = {1..2}"
    by (simp only: nxt) simp
  with len nxt rec show ?thesis by blast
qed

subsection \<open>Requests the handlers reject\<close>

text \<open>
  Claim C4, as amended. For a POST request whose body the decoder rejects, the handler
  replies 400 with the error's message and leaves the service as it was, printing
  nothing. This holds for every decoder.
\<close>

theorem createProductHandler_bad_request:
  assumes "Method r = ''POST''" and "fst (Decode (Body r) zero_Product) = Some err"
  shows "createProductHandler Decode Error r service
           = (http_Error (Error err) StatusBadRequest, service, [])"
  using assms by (cases "Decode (Body r) zero_Product") (simp add: createProductHandler_def)

theorem createProductHandler_bad_request_witness:
  "Method \<lparr>Method = ''POST'', Body = WellFormed (JObject [(''price'', JString ''cheap'')])\<rparr> = ''POST'' \<and>
   fst (json_Decode (Body \<lparr>Method = ''POST'', Body = WellFormed (JObject [(''price'', JString ''cheap'')])\<rparr>)
          zero_Product) = Some (UnmarshalTypeError ''string'' ''Product.price'' ''int'') \<and>
   createProductHandler json_Decode error_text
       \<lparr>Method = ''POST'', Body = WellFormed (JObject [(''price'', JString ''cheap'')])\<rparr> NewProductService
     = (\<lparr>Status = 400,
         Header = [(''Content-Type'', ''text/plain; charset=utf-8''),
                   (''X-Content-Type-Options'', ''nosniff'')],
         Written = ''json: cannot unmarshal string into Go struct field Product.price of type int''
                     @ [CHR 0x0A]\<rparr>,
        NewProductService, [])"
proof -
  let ?r = "\<lparr>Method = ''POST'', Body = WellFormed (JObject [(''price'', JString ''cheap'')])\<rparr>"
  have m: "Method ?r = ''POST''" by simp
  have d: "fst (json_Decode (Body ?r) zero_Product)
             = Some (UnmarshalTypeError ''string'' ''Product.price'' ''int'')"
    by (simp add: decode_field_def field_of_key_def to_lower_def zero_Product_def first_error_def)
  from createProductHandler_bad_request [where Decode = json_Decode and r = ?r
      and err = "UnmarshalTypeError ''string'' ''Product.price'' ''int''" and Error = error_text
      and service = NewProductService, OF m d]
  have "createProductHandler json_Decode error_text ?r NewProductService
     = (\<lparr>Status = 400,
         Header = [(''Content-Type'', ''text/plain; charset=utf-8''),
                   (''X-Content-Type-Options'', ''nosniff'')],
         Written = ''json: cannot unmarshal string into Go struct field Product.price of type int''
                     @ [CHR 0x0A]\<rparr>,
        NewProductService, [])"
    by (simp add: http_Error_def StatusBadRequest_def)
  with m d show ?thesis by blast
qed

text \<open>
  The claim as written also has a body with a required field missing rejected. The body
  \<^verbatim>\<open>{"name":"Apple"}\<close> has no price: it decodes without error, the reply is 201 and the
  record is stored with price 0.
\<close>

theorem createProductHandler_missing_field_counterexample:
  "createProductHandler json_Decode error_text
       \<lparr>Method = ''POST'', Body = WellFormed (JObject [(''name'', JString ''Apple'')])\<rparr> NewProductService
     = (\<lparr>Status = 201, Header = [], Written = ''Product created successfully''\<rparr>,
        \<lparr>products = [1 \<mapsto> \<lparr>ID = 1, Name = ''Apple'', Price = 0\<rparr>], nextID = 2\<rparr>,
        ''Created new product: ID=1, Name=Apple'' @ [CHR 0x0A])"
proof -
  have "fmt_d 1 = ''1''" by code_simp
  then show ?thesis
    by (simp add: CreateProduct_def NewProductService_def Let_def createProductHandler_def
      decode_field_def field_of_key_def to_lower_def zero_Product_def StatusCreated_def)
qed

text \<open>
  Claim C5. A request to the create handler whose method is not POST, or to the list
  handler whose method is not GET, is answered 405 at once: the reply, the service and
  the memory do not depend on the body, on the decoder or on the encoder, the service
  is unchanged, nothing is printed and nothing is allocated.
\<close>

theorem wrong_method_not_allowed:
  "(Method r \<noteq> ''POST'' \<longrightarrow>
      createProductHandler Decode Error r service
        = (http_Error ''Method not allowed'' StatusMethodNotAllowed, service, [])) \<and>
   (Method r \<noteq> ''GET'' \<longrightarrow>
      getProductsHandler Encode order r service h
        = (http_Error ''Method not allowed'' StatusMethodNotAllowed, service, h))"
  by (simp add: createProductHandler_def getProductsHandler_def)

theorem wrong_method_not_allowed_witness:
  "Method \<lparr>Method = ''PUT'', Body = WellFormed (JObject [(''name'', JString ''Apple'')])\<rparr> \<noteq> ''POST'' \<and>
   Method \<lparr>Method = ''PUT'', Body = WellFormed (JObject [(''name'', JString ''Apple'')])\<rparr> \<noteq> ''GET'' \<and>
   createProductHandler json_Decode error_text
       \<lparr>Method = ''PUT'', Body = WellFormed (JObject [(''name'', JString ''Apple'')])\<rparr> NewProductService
     = (\<lparr>Status = 405,
         Header = [(''Content-Type'', ''text/plain; charset=utf-8''),
                   (''X-Content-Type-Options'', ''nosniff'')],
         Written = ''Method not allowed'' @ [CHR 0x0A]\<rparr>, NewProductService, []) \<and>
   getProductsHandler (\<lambda>xs. []) []
       \<lparr>Method = ''PUT'', Body = WellFormed (JObject [(''name'', JString ''Apple'')])\<rparr> NewProductService []
     = (\<lparr>Status = 405,
         Header = [(''Content-Type'', ''text/plain; charset=utf-8''),
                   (''X-Content-Type-Options'', ''nosniff'')],
         Written = ''Method not allowed'' @ [CHR 0x0A]\<rparr>, NewProductService, [])"
  using wrong_method_not_allowed [where Decode = json_Decode and Error = error_text
      and r = "\<lparr>Method = ''PUT'', Body = WellFormed (JObject [(''name'', JString ''Apple'')])\<rparr>"
      and service = NewProductService and Encode = "\<lambda>xs. []" and order = "[]" and h = "[]"]
  by (simp add: http_Error_def StatusMethodNotAllowed_def)

section \<open>The lock of \<^verbatim>\<open>GetProducts\<close>\<close>

text \<open>
  Claim C3. \<^verbatim>\<open>GetProducts\<close> has a value receiver: the mutex it locks is the copy made by
  the call, not \<^verbatim>\<open>service.mu\<close>. First run: thread 1 enters \<^verbatim>\<open>GetProducts\<close> and starts its
  loop, then thread 0 locks \<^verbatim>\<open>service.mu\<close> and stores into the map; both are inside their
  sections, on two different mutexes, while the map is written and read. Second run:
  thread 1 copies the struct while thread 0 holds the lock; the copy is locked for
  writing and nothing ever unlocks it, so after thread 0 has returned neither thread
  can move and \<^verbatim>\<open>GetProducts\<close> never returns.
\<close>

theorem GetProducts_locks_a_copy:
  "run [1, 1, 1, 0, 0, 0]
       (start [C_Lock \<lparr>ID = 0, Name = ''Apple'', Price = 1\<rparr>, G_Receiver [1]])
     = Some (\<lparr>productService = \<lparr>products = [1 \<mapsto> \<lparr>ID = 1, Name = ''Apple'', Price = 1\<rparr>], nextID = 1\<rparr>,
              mutexes = [\<lparr>writer = True, readers = 0\<rparr>, \<lparr>writer = False, readers = 1\<rparr>],
              stdout = []\<rparr>,
             [C_Increment \<lparr>ID = 1, Name = ''Apple'', Price = 1\<rparr>, G_Range 1 [1] []]) \<and>
   in_CreateProduct (C_Increment \<lparr>ID = 1, Name = ''Apple'', Price = 1\<rparr>) \<and>
   in_GetProducts (G_Range 1 [1] []) \<and>
   run [0, 1, 0, 0, 0, 0, 0]
       (start [C_Lock \<lparr>ID = 0, Name = ''Apple'', Price = 1\<rparr>, G_Receiver [1]])
     = Some (\<lparr>productService = \<lparr>products = [1 \<mapsto> \<lparr>ID = 1, Name = ''Apple'', Price = 1\<rparr>], nextID = 2\<rparr>,
              mutexes = [\<lparr>writer = False, readers = 0\<rparr>, \<lparr>writer = True, readers = 0\<rparr>],
              stdout = ''Created new product: ID=1, Name=Apple'' @ [CHR 0x0A]\<rparr>,
             [C_Returned, G_RLock 1 [1]]) \<and>
   step 0 (\<lparr>productService = \<lparr>products = [1 \<mapsto> \<lparr>ID = 1, Name = ''Apple'', Price = 1\<rparr>], nextID = 2\<rparr>,
            mutexes = [\<lparr>writer = False, readers = 0\<rparr>, \<lparr>writer = True, readers = 0\<rparr>],
            stdout = ''Created new product: ID=1, Name=Apple'' @ [CHR 0x0A]\<rparr>,
           [C_Returned, G_RLock 1 [1]]) = None \<and>
   step 1 (\<lparr>productService = \<lparr>products = [1 \<mapsto> \<lparr>ID = 1, Name = ''Apple'', Price = 1\<rparr>], nextID = 2\<rparr>,
            mutexes = [\<lparr>writer = False, readers = 0\<rparr>, \<lparr>writer = True, readers = 0\<rparr>],
            stdout = ''Created new product: ID=1, Name=Apple'' @ [CHR 0x0A]\<rparr>,
           [C_Returned, G_RLock 1 [1]]) = None"
proof -
  have "fmt_d 1 = ''1''" by code_simp
  then show ?thesis
    by (simp add: start_def step_def unlocked_def alloc_def NewProductService_def)
qed

text \<open>
  Claim C8. The list \<^verbatim>\<open>GetProducts\<close> returns is to show the records as they are when it
  takes its lock. It does not when a \<^verbatim>\<open>CreateProduct\<close> overlaps it, because the lock it
  takes is the copy's. After thread 1 has made its three first steps it holds its read
  lock, it is in its loop, and the map is empty. Thread 0 then locks \<^verbatim>\<open>service.mu\<close> and
  stores Apple, and thread 1 goes on to return Apple: a record that was not stored
  when it took its lock, where the loop over the map of that moment gives the empty
  list. (That a result, once returned, is a copy no later write reaches is
  \<open>returned_records_are_copies\<close>.)
\<close>

theorem GetProducts_returns_later_record:
  "run [1, 1, 1]
       (start [C_Lock \<lparr>ID = 0, Name = ''Apple'', Price = 1\<rparr>, G_Receiver [1]])
     = Some (\<lparr>productService = \<lparr>products = Map.empty, nextID = 1\<rparr>,
              mutexes = [\<lparr>writer = False, readers = 0\<rparr>, \<lparr>writer = False, readers = 1\<rparr>],
              stdout = []\<rparr>,
             [C_Lock \<lparr>ID = 0, Name = ''Apple'', Price = 1\<rparr>, G_Range 1 [1] []]) \<and>
   in_GetProducts (G_Range 1 [1] []) \<and>
   run [1, 1, 1, 0, 0, 0, 1, 1, 1]
       (start [C_Lock \<lparr>ID = 0, Name = ''Apple'', Price = 1\<rparr>, G_Receiver [1]])
     = Some (\<lparr>productService =
                \<lparr>products = [1 \<mapsto> \<lparr>ID = 1, Name = ''Apple'', Price = 1\<rparr>], nextID = 1\<rparr>,
              mutexes = [\<lparr>writer = True, readers = 0\<rparr>, \<lparr>writer = False, readers = 0\<rparr>],
              stdout = []\<rparr>,
             [C_Increment \<lparr>ID = 1, Name = ''Apple'', Price = 1\<rparr>,
              G_Returned [\<lparr>ID = 1, Name = ''Apple'', Price = 1\<rparr>]]) \<and>
   range_append Map.empty [1] [] \<noteq> [\<lparr>ID = 1, Name = ''Apple'', Price = 1\<rparr>]"
  by (simp add: start_def step_def unlocked_def alloc_def NewProductService_def)

end
